theory Spec2Isabelle
  imports Main
begin

section \<open>Python values used by the two programs\<close>

text \<open>
  Python text is modelled by \<open>string\<close>, one \<open>char\<close> per code point, which restricts
  the model to the code points U+0000 to U+00FF. An argument that may be \<open>None\<close> is a
  \<open>string option\<close>. \<open>truthy\<close> is Python's truth test on such a value: \<open>None\<close> and the
  empty string are false.
\<close>

fun truthy :: "string option \<Rightarrow> bool" where
  "truthy None = False"
| "truthy (Some s) = (s \<noteq> [])"

text \<open>What an f-string inserts for an argument: \<open>str(None)\<close> is \<open>None\<close>.\<close>

fun format_arg :: "string option \<Rightarrow> string" where
  "format_arg None = ''None''"
| "format_arg (Some s) = s"

definition nl :: string where
  "nl = [CHR 0x0A]"

definition apostrophe :: string where
  "apostrophe = [CHR 0x27]"

text \<open>\<open>str.lower()\<close> on the code points below U+0100: the ASCII capitals and the
  Latin-1 capitals (U+00C0 to U+00DE without the multiplication sign U+00D7) move up
  by 32, every other character stays.\<close>

definition lower_char :: "char \<Rightarrow> char" where
  "lower_char c =
     (let n = (of_char c :: nat)
      in if (65 \<le> n \<and> n \<le> 90) \<or> (192 \<le> n \<and> n \<le> 214) \<or> (216 \<le> n \<and> n \<le> 222)
         then char_of (n + 32) else c)"

definition lower :: "string \<Rightarrow> string" where
  "lower s = map lower_char s"

text \<open>\<open>s.startswith(p)\<close> and the substring test \<open>p in s\<close>.\<close>

fun startswith :: "string \<Rightarrow> string \<Rightarrow> bool" where
  "startswith s [] = True"
| "startswith [] (p # ps) = False"
| "startswith (c # cs) (p # ps) = (c = p \<and> startswith cs ps)"

fun str_in :: "string \<Rightarrow> string \<Rightarrow> bool" where
  "str_in p [] = (p = [])"
| "str_in p (c # cs) = (startswith (c # cs) p \<or> str_in p cs)"

text \<open>\<open>str.strip()\<close>: the white space of \<open>str.isspace\<close> below U+0100 is removed at both
  ends.\<close>

definition isspace :: "char \<Rightarrow> bool" where
  "isspace c =
     (let n = (of_char c :: nat)
      in (9 \<le> n \<and> n \<le> 13) \<or> (28 \<le> n \<and> n \<le> 32) \<or> n = 133 \<or> n = 160)"

definition strip :: "string \<Rightarrow> string" where
  "strip s = rev (dropWhile isspace (rev (dropWhile isspace s)))"

text \<open>\<open>str(n)\<close> for an integer.\<close>

fun str_nat :: "nat \<Rightarrow> string" where
  "str_nat n = (if n < 10 then [char_of (48 + n)] else str_nat (n div 10) @ [char_of (48 + n mod 10)])"

definition str_int :: "int \<Rightarrow> string" where
  "str_int i = (if i < 0 then CHR ''-'' # str_nat (nat (- i)) else str_nat (nat i))"

subsection \<open>Exceptions\<close>

text \<open>
  Both functions catch with the same three clauses, in this order:
  \<open>except requests.exceptions.RequestException\<close>, \<open>except json.JSONDecodeError\<close>,
  \<open>except Exception\<close>. An exception is modelled by the first of these clauses that
  its class matches, with \<open>str(e)\<close> as the argument. \<open>RequestException\<close> covers its
  subclasses (\<open>HTTPError\<close>, \<open>ConnectionError\<close>, \<open>Timeout\<close>); \<open>JSONDecodeError\<close> is a
  \<open>json.JSONDecodeError\<close> that is no \<open>RequestException\<close>; \<open>OtherException\<close> is every
  other subclass of \<open>Exception\<close> (\<open>AttributeError\<close>, \<open>ValueError\<close>,
  \<open>UnboundLocalError\<close> and so on).
\<close>

datatype exn =
    RequestException string
  | JSONDecodeError string
  | OtherException string

fun exn_str :: "exn \<Rightarrow> string" where
  "exn_str (RequestException e) = e"
| "exn_str (JSONDecodeError e) = e"
| "exn_str (OtherException e) = e"

subsection \<open>JSON values\<close>

text \<open>The value \<open>response.json()\<close> returns. A \<open>JDict\<close> holds the items of the Python
  dict in insertion order; a \<open>JFloat\<close> keeps the number's text.\<close>

datatype json =
    JNull
  | JBool bool
  | JInt int
  | JFloat string
  | JStr string
  | JList "json list"
  | JDict "(string \<times> json) list"

fun type_name :: "json \<Rightarrow> string" where
  "type_name JNull = ''NoneType''"
| "type_name (JBool b) = ''bool''"
| "type_name (JInt i) = ''int''"
| "type_name (JFloat f) = ''float''"
| "type_name (JStr s) = ''str''"
| "type_name (JList xs) = ''list''"
| "type_name (JDict kvs) = ''dict''"

definition attribute_error :: "json \<Rightarrow> string \<Rightarrow> exn" where
  "attribute_error v attr =
     OtherException (apostrophe @ type_name v @ apostrophe @ '' object has no attribute ''
                     @ apostrophe @ attr @ apostrophe)"

text \<open>\<open>response_data.get(key, default)\<close>: only a dict has the method.\<close>

fun json_get :: "json \<Rightarrow> string \<Rightarrow> json \<Rightarrow> exn + json" where
  "json_get (JDict kvs) k d = Inr (case map_of kvs k of None \<Rightarrow> d | Some v \<Rightarrow> v)"
| "json_get v k d = Inl (attribute_error v ''get'')"

text \<open>\<open>value.lower()\<close>: only a string has the method.\<close>

fun json_lower :: "json \<Rightarrow> exn + string" where
  "json_lower (JStr s) = Inr (lower s)"
| "json_lower v = Inl (attribute_error v ''lower'')"

subsection \<open>The HTTP library\<close>

text \<open>
  A response of \<open>requests\<close>, with the attributes the programs read. \<open>json_result\<close> is
  what \<open>response.json()\<close> does: it returns the decoded body or raises.
\<close>

record response =
  status_code :: int
  reason :: string
  response_url :: string
  response_text :: string
  json_result :: "exn + json"

text \<open>\<open>response.raise_for_status()\<close>: \<open>HTTPError\<close>, a \<open>RequestException\<close>, for the
  statuses 4xx and 5xx (``This will raise an HTTPError for 4xx/5xx responses'',
  main.py line 27), with the text the library gives it.\<close>

definition raise_for_status :: "response \<Rightarrow> exn option" where
  "raise_for_status r =
     (if 400 \<le> status_code r \<and> status_code r < 500
      then Some (RequestException (str_int (status_code r) @ '' Client Error: '' @ reason r
                                   @ '' for url: '' @ response_url r))
      else if 500 \<le> status_code r \<and> status_code r < 600
      then Some (RequestException (str_int (status_code r) @ '' Server Error: '' @ reason r
                                   @ '' for url: '' @ response_url r))
      else None)"

text \<open>What \<open>requests.get\<close> does: it raises a \<open>RequestException\<close> (no connection, time
  out), raises something else, or returns a response. It decodes no JSON, so it raises
  no \<open>json.JSONDecodeError\<close>.\<close>

datatype get_outcome =
    GetRequestException string
  | GetOtherException string
  | GetResponse response

text \<open>One call of \<open>requests.get(url, timeout=t, verify=v)\<close>.\<close>

datatype http_call = GET string int bool

subsection \<open>The environment\<close>

text \<open>
  The library functions the programs call and the network behind \<open>requests.get\<close> are
  parameters of the model. \<open>urlparse\<close>, \<open>parse_qs\<close>, \<open>urlencode\<close> and \<open>urlunparse\<close> are
  those of \<open>urllib.parse\<close>, each returning its value or raising; a query mapping is the
  dict of \<open>parse_qs\<close>, kept as the list of its items in insertion order. \<open>json_dumps j n\<close>
  is \<open>json.dumps(j, indent=n)\<close>, which returns the text or raises.
\<close>

record ParseResult =
  scheme :: string
  netloc :: string
  path :: string
  params :: string
  query :: string
  fragment :: string

type_synonym query_dict = "(string \<times> string list) list"

record env =
  urlparse :: "string \<Rightarrow> exn + ParseResult"
  parse_qs :: "string \<Rightarrow> exn + query_dict"
  urlencode :: "query_dict \<Rightarrow> bool \<Rightarrow> exn + string"
  urlunparse :: "ParseResult \<Rightarrow> exn + string"
  json_dumps :: "json \<Rightarrow> nat \<Rightarrow> exn + string"
  requests_get :: "string \<Rightarrow> int \<Rightarrow> bool \<Rightarrow> get_outcome"

text \<open>What a call of one of the two functions does: the HTTP requests it issued, and
  the pair it returned (\<open>Inr\<close>) or the exception that left it (\<open>Inl\<close>).\<close>

record outcome =
  calls :: "http_call list"
  returned :: "exn + (bool \<times> string)"

section \<open>The key validator (main.py)\<close>

subsection \<open>\<open>validate_api_key\<close>\<close>

text \<open>Lines 37 to 50, after the \<open>message\<close> field is read: it is lowered, and the
  branches follow on the lowered message and the status.\<close>

definition classify_message :: "json \<Rightarrow> int \<Rightarrow> exn + (bool \<times> string)" where
  "classify_message field status =
     (case json_lower field of
        Inl err \<Rightarrow> Inl err
      | Inr message \<Rightarrow>
          if str_in ''invalid api key'' message
          then Inr (False, ''Invalid API Key: OpenWeatherMap service explicitly says key is invalid.'')
          else if str_in ''city not found'' message \<and> status = 404
          then Inr (True, ''API Key is valid. (Test city not found as expected).'')
          else if status = 200
          then Inr (True, ''API Key is valid. (Unexpected 200 OK for test city, but key seems active).'')
          else Inr (False, ''API Key validation failed with unexpected response: ''
                           @ (if message \<noteq> [] then message else ''Unknown error'')))"

text \<open>Lines 26 to 50, the body of the \<open>try\<close>: one GET with \<open>timeout=5\<close> and
  \<open>verify=False\<close>, \<open>raise_for_status\<close>, \<open>response.json()\<close>, then the classification by
  the \<open>message\<close> field and the status. The result is the pair returned, or the
  exception raised inside the \<open>try\<close>.\<close>

definition validate_try :: "env \<Rightarrow> string \<Rightarrow> exn + (bool \<times> string)" where
  "validate_try e test_url =
     (case requests_get e test_url 5 False of
        GetRequestException msg \<Rightarrow> Inl (RequestException msg)
      | GetOtherException msg \<Rightarrow> Inl (OtherException msg)
      | GetResponse response \<Rightarrow>
          (case raise_for_status response of
             Some err \<Rightarrow> Inl err
           | None \<Rightarrow>
               (case json_result response of
                  Inl err \<Rightarrow> Inl err
                | Inr response_data \<Rightarrow>
                    (case json_get response_data ''message'' (JStr []) of
                       Inl err \<Rightarrow> Inl err
                     | Inr field \<Rightarrow> classify_message field (status_code response)))))"

text \<open>Lines 52 to 63, the three \<open>except\<close> clauses.\<close>

fun validate_except :: "exn \<Rightarrow> exn + (bool \<times> string)" where
  "validate_except (RequestException msg) =
     Inr (False, ''Network or API communication error: '' @ msg
                 @ ''. Check internet, API key, or try again later.'')"
| "validate_except (JSONDecodeError msg) =
     Inr (False, ''API returned unreadable data (not valid JSON format).'')"
| "validate_except (OtherException msg) =
     Inr (False, ''An unexpected internal error occurred: '' @ msg)"

definition test_url_for :: "string option \<Rightarrow> string" where
  "test_url_for api_key =
     ''https://api.openweathermap.org/data/2.5/weather?q=NonExistentCity123&appid=''
     @ format_arg api_key"

definition validate_api_key :: "env \<Rightarrow> string option \<Rightarrow> outcome" where
  "validate_api_key e api_key =
     (if \<not> truthy api_key
      then \<lparr>calls = [], returned = Inr (False, ''API Key cannot be empty.'')\<rparr>
      else let test_url = test_url_for api_key
           in \<lparr>calls = [GET test_url 5 False],
               returned = (case validate_try e test_url of
                             Inr result \<Rightarrow> Inr result
                           | Inl err \<Rightarrow> validate_except err)\<rparr>)"

subsection \<open>The window\<close>

text \<open>The widgets \<open>perform_validation\<close> and \<open>clear_fields\<close> touch, and the attribute
  \<open>root.valid_api_key\<close>. A text widget ignores \<open>insert\<close> and \<open>delete\<close> while its state is
  \<open>DISABLED\<close>.\<close>

datatype widget_state = NORMAL | DISABLED

record gui =
  api_key_entry :: string
  status_area :: string
  status_area_state :: widget_state
  validate_button_state :: widget_state
  valid_api_key :: "string option"

definition status_delete_all :: "gui \<Rightarrow> gui" where
  "status_delete_all g = (if status_area_state g = NORMAL then g\<lparr>status_area := []\<rparr> else g)"

definition status_insert_end :: "string \<Rightarrow> gui \<Rightarrow> gui" where
  "status_insert_end s g =
     (if status_area_state g = NORMAL then g\<lparr>status_area := status_area g @ s\<rparr> else g)"

text \<open>Lines 67 to 93. Were \<open>validate_api_key\<close> to raise, the callback would end at
  line 81, with the window as the lines before left it.\<close>

definition perform_validation :: "env \<Rightarrow> gui \<Rightarrow> gui" where
  "perform_validation e g =
     (let entered_api_key = strip (api_key_entry g);
          g1 = g\<lparr>status_area_state := NORMAL\<rparr>;
          g2 = status_delete_all g1;
          g3 = status_insert_end (''Validating API Key...'' @ nl) g2;
          g4 = g3\<lparr>status_area_state := DISABLED\<rparr>;
          g5 = g4\<lparr>validate_button_state := DISABLED\<rparr>
      in case returned (validate_api_key e (Some entered_api_key)) of
           Inl err \<Rightarrow> g5
         | Inr (is_valid, message) \<Rightarrow>
             (let g6 = g5\<lparr>status_area_state := NORMAL\<rparr>;
                  g7 = status_delete_all g6;
                  g8 = (if is_valid
                        then (status_insert_end
                                (''Validation Successful: '' @ message @ nl @ nl
                                 @ ''API Key is considered valid for use.'') g7)
                             \<lparr>valid_api_key := Some entered_api_key\<rparr>
                        else (status_insert_end
                                (''Validation Failed: '' @ message @ nl @ nl
                                 @ ''API Key is NOT valid or a connection/certificate error occurred. It will not be used.'') g7)
                             \<lparr>valid_api_key := None\<rparr>);
                  g9 = g8\<lparr>status_area_state := DISABLED\<rparr>
              in g9\<lparr>validate_button_state := NORMAL\<rparr>))"

text \<open>Lines 95 to 101.\<close>

definition clear_fields :: "gui \<Rightarrow> gui" where
  "clear_fields g =
     (let g1 = g\<lparr>api_key_entry := []\<rparr>;
          g2 = g1\<lparr>status_area_state := NORMAL\<rparr>;
          g3 = status_delete_all g2;
          g4 = g3\<lparr>status_area_state := DISABLED\<rparr>
      in g4\<lparr>valid_api_key := None\<rparr>)"

text \<open>What can happen to the window: the user edits the entry, or presses one of the
  two buttons; each validation meets its own state of the network.\<close>

datatype event = Edit string | Validate env | Clear

fun step :: "event \<Rightarrow> gui \<Rightarrow> gui" where
  "step (Edit s) g = g\<lparr>api_key_entry := s\<rparr>"
| "step (Validate e) g = perform_validation e g"
| "step Clear g = clear_fields g"

fun run :: "event list \<Rightarrow> gui \<Rightarrow> gui" where
  "run [] g = g"
| "run (ev # evs) g = run evs (step ev g)"

text \<open>\<open>unsuccessful evs g\<close>: no validation among the events \<open>evs\<close>, run from \<open>g\<close>, is
  successful (none returns \<open>True\<close>).\<close>

fun is_success :: "exn + (bool \<times> string) \<Rightarrow> bool" where
  "is_success (Inr (ok, message)) = ok"
| "is_success (Inl err) = False"

fun unsuccessful :: "event list \<Rightarrow> gui \<Rightarrow> bool" where
  "unsuccessful [] g = True"
| "unsuccessful (Validate e # evs) g =
     (\<not> is_success (returned (validate_api_key e (Some (strip (api_key_entry g)))))
      \<and> unsuccessful evs (perform_validation e g))"
| "unsuccessful (ev # evs) g = unsuccessful evs (step ev g)"

section \<open>The generic tester (temp.py)\<close>

text \<open>Line 26, \<open>query_params[key_param_name] = [api_key]\<close>: assigning to a key of
  the dict replaces its value where the key is, and adds the key at the end when it is
  new.\<close>

fun dict_setitem :: "query_dict \<Rightarrow> string \<Rightarrow> string list \<Rightarrow> query_dict" where
  "dict_setitem [] k v = [(k, v)]"
| "dict_setitem ((k', v') # kvs) k v =
     (if k' = k then (k, v) # kvs else (k', v') # dict_setitem kvs k v)"

text \<open>Lines 24 to 28, the body of the first \<open>try\<close>.\<close>

definition inject_key :: "env \<Rightarrow> string \<Rightarrow> string \<Rightarrow> string \<Rightarrow> exn + string" where
  "inject_key e base_url api_key key_param_name =
     (case urlparse e base_url of
        Inl err \<Rightarrow> Inl err
      | Inr parsed_url \<Rightarrow>
          (case parse_qs e (query parsed_url) of
             Inl err \<Rightarrow> Inl err
           | Inr query_params \<Rightarrow>
               (case urlencode e (dict_setitem query_params key_param_name [api_key]) True of
                  Inl err \<Rightarrow> Inl err
                | Inr new_query \<Rightarrow> urlunparse e (parsed_url\<lparr>query := new_query\<rparr>))))"

text \<open>Lines 21 to 28, the URL builder: \<open>final_url\<close>, or the exception raised while
  building it.\<close>

fun url_builder :: "env \<Rightarrow> string \<Rightarrow> string option \<Rightarrow> string option \<Rightarrow> exn + string" where
  "url_builder e base_url (Some api_key) (Some key_param_name) =
     (if truthy (Some api_key) \<and> truthy (Some key_param_name)
      then inject_key e base_url api_key key_param_name
      else Inr base_url)"
| "url_builder e base_url api_key key_param_name = Inr base_url"

text \<open>Lines 37 to 42, the body of the second \<open>try\<close>: the value of the local variable
  \<open>response\<close> when the body ends (\<open>None\<close> while it is unbound), and the pair returned
  or the exception raised.\<close>

definition request_try :: "env \<Rightarrow> string \<Rightarrow> response option \<times> (exn + (bool \<times> string))" where
  "request_try e final_url =
     (case requests_get e final_url 10 False of
        GetRequestException msg \<Rightarrow> (None, Inl (RequestException msg))
      | GetOtherException msg \<Rightarrow> (None, Inl (OtherException msg))
      | GetResponse response \<Rightarrow>
          (Some response,
           case raise_for_status response of
             Some err \<Rightarrow> Inl err
           | None \<Rightarrow>
               (case json_result response of
                  Inl err \<Rightarrow> Inl err
                | Inr response_data \<Rightarrow>
                    (case json_dumps e response_data 2 of
                       Inl err \<Rightarrow> Inl err
                     | Inr pretty \<Rightarrow> Inr (True, pretty)))))"

text \<open>Lines 44 to 56, the three \<open>except\<close> clauses. The second reads \<open>response.text\<close>,
  which raises \<open>UnboundLocalError\<close> out of the function if \<open>response\<close> is unbound.\<close>

fun request_except :: "string \<Rightarrow> response option \<Rightarrow> exn \<Rightarrow> exn + (bool \<times> string)" where
  "request_except final_url resp (RequestException msg) =
     Inr (False, ''Network or HTTP error: '' @ msg @ nl
                 @ ''Attempted URL: '' @ final_url @ nl @ nl
                 @ ''**Troubleshooting:**'' @ nl
                 @ ''- Ensure the URL is correct and accessible.'' @ nl
                 @ ''- Check your internet connection.'' @ nl
                 @ ''- Verify the API key is correct for the API'' @ apostrophe
                 @ ''s endpoint and method (e.g., query parameter name).'' @ nl
                 @ ''- The API might require authentication via headers (not supported by this simple tool).'')"
| "request_except final_url None (JSONDecodeError msg) =
     Inl (OtherException (''cannot access local variable '' @ apostrophe @ ''response''
                          @ apostrophe @ '' where it is not associated with a value''))"
| "request_except final_url (Some response) (JSONDecodeError msg) =
     Inr (False, ''API returned unreadable data (not valid JSON format).'' @ nl
                 @ ''Attempted URL: '' @ final_url @ nl @ nl
                 @ ''**Response Content Snippet:**'' @ nl
                 @ take 500 (response_text response) @ ''...'' @ nl @ nl
                 @ ''**Troubleshooting:**'' @ nl
                 @ ''- This API might not return JSON, or it returned an error page. Try opening the URL in a browser.'')"
| "request_except final_url resp (OtherException msg) =
     Inr (False, ''An unexpected internal error occurred: '' @ msg)"

text \<open>Lines 16 to 56. \<open>if not base_url\<close> holds for \<open>None\<close> and for the empty text.\<close>

fun make_api_request ::
  "env \<Rightarrow> string option \<Rightarrow> string option \<Rightarrow> string option \<Rightarrow> outcome" where
  "make_api_request e None api_key key_param_name =
     \<lparr>calls = [], returned = Inr (False, ''API URL cannot be empty.'')\<rparr>"
| "make_api_request e (Some base_url) api_key key_param_name =
     (if \<not> truthy (Some base_url)
      then \<lparr>calls = [], returned = Inr (False, ''API URL cannot be empty.'')\<rparr>
      else
        (case url_builder e base_url api_key key_param_name of
           Inl err \<Rightarrow>
             \<lparr>calls = [],
              returned = Inr (False, ''Error constructing URL with API key: '' @ exn_str err
                                     @ ''. Please check Base URL and Key Parameter Name.'')\<rparr>
         | Inr final_url \<Rightarrow>
             \<lparr>calls = [GET final_url 10 False],
              returned = (case request_try e final_url of
                            (resp, Inr result) \<Rightarrow> Inr result
                          | (resp, Inl err) \<Rightarrow> request_except final_url resp err)\<rparr>))"

section \<open>Casings, and environments for the examples\<close>

text \<open>A casing of a lowercase text: every character is kept or replaced by its
  capital.\<close>

definition upper_ascii :: "char \<Rightarrow> char" where
  "upper_ascii c =
     (let n = (of_char c :: nat) in if 97 \<le> n \<and> n \<le> 122 then char_of (n - 32) else c)"

definition casing_of :: "string \<Rightarrow> string \<Rightarrow> bool" where
  "casing_of p s = list_all2 (\<lambda>c d. d = c \<or> d = upper_ascii c) p s"

text \<open>\<open>occurs_ignoring_case p s\<close>: some casing of \<open>p\<close> occurs in \<open>s\<close>. \<open>plain_lower p\<close>:
  \<open>p\<close> consists of the letters \<open>a\<close> to \<open>z\<close> and blanks.\<close>

fun occurs_ignoring_case :: "string \<Rightarrow> string \<Rightarrow> bool" where
  "occurs_ignoring_case p [] = (p = [])"
| "occurs_ignoring_case p (c # cs) =
     (casing_of p (take (length p) (c # cs)) \<or> occurs_ignoring_case p cs)"

definition plain_lower :: "string \<Rightarrow> bool" where
  "plain_lower p = list_all (\<lambda>c. (97 \<le> (of_char c :: nat) \<and> (of_char c :: nat) \<le> 122)
                                 \<or> (of_char c :: nat) = 32) p"

text \<open>A JSON array nested in itself: \<open>nested_list n\<close> is what the body of \<open>n + 1\<close> opening
  and \<open>n + 1\<close> closing brackets decodes to.\<close>

fun nested_list :: "nat \<Rightarrow> json" where
  "nested_list 0 = JList []"
| "nested_list (Suc n) = JList [nested_list n]"

text \<open>
  \<open>example_env answer\<close> is an environment in which every GET meets \<open>answer\<close>, and the
  library functions are tabulated at the arguments the examples reach, with the values
  \<open>urllib.parse\<close> and \<open>json\<close> give there.
\<close>

definition dquote :: string where
  "dquote = [CHR 0x22]"

definition example_base_url :: string where
  "example_base_url = ''https://api.example.com/data?units=metric&appid=old''"

definition example_parsed :: ParseResult where
  "example_parsed =
     \<lparr>scheme = ''https'', netloc = ''api.example.com'', path = ''/data'', params = [],
      query = ''units=metric&appid=old'', fragment = []\<rparr>"

definition example_env :: "get_outcome \<Rightarrow> env" where
  "example_env answer =
     \<lparr>urlparse = (\<lambda>u. if u = example_base_url then Inr example_parsed
                        else Inl (OtherException ''not tabulated'')),
      parse_qs = (\<lambda>q. if q = ''units=metric&appid=old''
                        then Inr [(''units'', [''metric'']), (''appid'', [''old''])]
                        else Inl (OtherException ''not tabulated'')),
      urlencode = (\<lambda>d doseq. if d = [(''units'', [''metric'']), (''appid'', [''NEW''])] \<and> doseq
                              then Inr ''units=metric&appid=NEW''
                              else Inl (OtherException ''not tabulated'')),
      urlunparse = (\<lambda>p. if p = example_parsed\<lparr>query := ''units=metric&appid=NEW''\<rparr>
                          then Inr ''https://api.example.com/data?units=metric&appid=NEW''
                          else Inl (OtherException ''not tabulated'')),
      json_dumps = (\<lambda>j indent. if j = JDict [(''message'', JStr ''ok'')] \<and> indent = 2
                               then Inr (''{'' @ nl @ ''  '' @ dquote @ ''message'' @ dquote
                                         @ '': '' @ dquote @ ''ok'' @ dquote @ nl @ ''}'')
                               else if j = nested_list 999 \<and> indent = 2
                               then Inl (OtherException ''maximum recursion depth exceeded'')
                               else Inl (OtherException ''not tabulated'')),
      requests_get = (\<lambda>u t v. answer)\<rparr>"

text \<open>Responses of the weather service to the validator's test request, and two
  responses to the generic tester.\<close>

definition test_url_abc :: string where
  "test_url_abc = ''https://api.openweathermap.org/data/2.5/weather?q=NonExistentCity123&appid=abc''"

definition unauthorized_response :: response where
  "unauthorized_response =
     \<lparr>status_code = 401, reason = ''Unauthorized'', response_url = test_url_abc,
      response_text = ''{'' @ dquote @ ''message'' @ dquote @ '':'' @ dquote @ ''Invalid API key''
                      @ dquote @ ''}'',
      json_result = Inr (JDict [(''message'', JStr ''Invalid API key'')])\<rparr>"

definition not_found_response :: response where
  "not_found_response =
     \<lparr>status_code = 404, reason = ''Not Found'', response_url = test_url_abc,
      response_text = ''{'' @ dquote @ ''cod'' @ dquote @ '':'' @ dquote @ ''404'' @ dquote @ '',''
                      @ dquote @ ''message'' @ dquote @ '':'' @ dquote @ ''city not found''
                      @ dquote @ ''}'',
      json_result = Inr (JDict [(''cod'', JStr ''404''), (''message'', JStr ''city not found'')])\<rparr>"

definition invalid_key_200_response :: response where
  "invalid_key_200_response =
     \<lparr>status_code = 200, reason = ''OK'', response_url = test_url_abc,
      response_text = ''{'' @ dquote @ ''message'' @ dquote @ '':'' @ dquote @ ''Invalid API Key''
                      @ dquote @ ''}'',
      json_result = Inr (JDict [(''message'', JStr ''Invalid API Key'')])\<rparr>"

definition ok_response :: response where
  "ok_response =
     \<lparr>status_code = 200, reason = ''OK'', response_url = test_url_abc,
      response_text = ''{'' @ dquote @ ''message'' @ dquote @ '': '' @ dquote @ ''ok'' @ dquote @ ''}'',
      json_result = Inr (JDict [(''message'', JStr ''ok'')])\<rparr>"

text \<open>A body that is no JSON. Since version 2.27 of \<open>requests\<close>, \<open>response.json()\<close>
  raises \<open>requests.exceptions.JSONDecodeError\<close> for it, which is a \<open>RequestException\<close>
  (and a \<open>json.JSONDecodeError\<close> as well).\<close>

definition html_response :: response where
  "html_response =
     \<lparr>status_code = 200, reason = ''OK'', response_url = test_url_abc,
      response_text = ''<html>error</html>'',
      json_result = Inl (RequestException ''Expecting value: line 1 column 1 (char 0)'')\<rparr>"

text \<open>A body of 1000 opening and 1000 closing brackets. It decodes, and in Python
  3.12 \<open>json.dumps\<close> with \<open>indent=2\<close> raises \<open>RecursionError\<close> on the decoded value.\<close>

definition deep_response :: response where
  "deep_response =
     \<lparr>status_code = 200, reason = ''OK'', response_url = test_url_abc,
      response_text = replicate 1000 (CHR ''['') @ replicate 1000 (CHR '']''),
      json_result = Inr (nested_list 999)\<rparr>"

definition start_gui :: gui where
  "start_gui =
     \<lparr>api_key_entry = [], status_area = [], status_area_state = DISABLED,
      validate_button_state = NORMAL, valid_api_key = None\<rparr>"

section \<open>Facts about text\<close>

lemma startswith_append: "startswith (p @ s) p"
  by (induction p) auto

lemma str_in_self: "str_in p (p @ s)"
  using startswith_append [of p s] by (cases "p @ s") auto

lemma str_in_append: "str_in p (pre @ p @ post)"
proof (induction pre)
  case Nil
  show ?case using str_in_self by simp
next
  case (Cons c cs)
  then show ?case by simp
qed

lemma lower_append: "lower (a @ b) = lower a @ lower b"
  by (simp add: lower_def)

text \<open>Lowering the capital of a character gives what lowering the character gives.\<close>

lemma lower_upper_ascii: "lower_char (upper_ascii c) = lower_char c"
proof (cases "97 \<le> (of_char c :: nat) \<and> (of_char c :: nat) \<le> 122")
  case False
  then show ?thesis by (auto simp: upper_ascii_def Let_def)
next
  case True
  define n where "n = (of_char c :: nat)"
  have n: "97 \<le> n" "n \<le> 122" using True by (simp_all add: n_def)
  have u: "upper_ascii c = char_of (n - 32)"
    using True by (simp add: upper_ascii_def Let_def n_def)
  have m: "(n - 32) mod 256 = n - 32" using n by simp
  have r: "65 \<le> n - 32" "n - 32 \<le> 90" "n - 32 + 32 = n" using n by simp_all
  have "lower_char (char_of (n - 32)) = char_of (n - 32 + 32)"
    using r m by (simp add: lower_char_def Let_def)
  also have "\<dots> = c" using r by (simp add: n_def)
  finally have 1: "lower_char (upper_ascii c) = c" using u by simp
  have "\<not> n \<le> 90" "\<not> 192 \<le> n" "\<not> 216 \<le> n" using n by simp_all
  then have 2: "lower_char c = c" by (simp add: lower_char_def Let_def n_def)
  show ?thesis using 1 2 by simp
qed

lemma lower_casing: "casing_of p s \<Longrightarrow> lower s = lower p"
  unfolding casing_of_def lower_def
  by (induction p s rule: list_all2_induct) (auto simp: lower_upper_ascii)

lemma lower_invalid_api_key: "lower ''invalid api key'' = ''invalid api key''"
  by code_simp

lemma lower_city_not_found: "lower ''city not found'' = ''city not found''"
  by code_simp

text \<open>For a letter \<open>a\<close> to \<open>z\<close> or a blank, the characters that \<open>str.lower()\<close> maps to it
  are the character itself and its capital.\<close>

lemma lower_char_eq_plain:
  assumes "(97 \<le> (of_char a :: nat) \<and> (of_char a :: nat) \<le> 122) \<or> (of_char a :: nat) = 32"
  shows "lower_char d = a \<longleftrightarrow> d = a \<or> d = upper_ascii a"
proof
  assume "d = a \<or> d = upper_ascii a"
  moreover have "lower_char a = a" using assms by (auto simp: lower_char_def Let_def)
  ultimately show "lower_char d = a" using lower_upper_ascii [of a] by auto
next
  assume l: "lower_char d = a"
  define n where "n = (of_char d :: nat)"
  have nb: "n < 256" by (simp add: n_def)
  show "d = a \<or> d = upper_ascii a"
  proof (cases "(65 \<le> n \<and> n \<le> 90) \<or> (192 \<le> n \<and> n \<le> 214) \<or> (216 \<le> n \<and> n \<le> 222)")
    case False
    then have "lower_char d = d" by (auto simp: lower_char_def Let_def n_def)
    with l show ?thesis by simp
  next
    case True
    then have ld: "lower_char d = char_of (n + 32)" by (auto simp: lower_char_def Let_def n_def)
    have m: "(n + 32) mod 256 = n + 32" using True by auto
    have "(of_char a :: nat) = n + 32" using l ld m by (metis of_char_of)
    with True assms have a: "97 \<le> (of_char a :: nat)" "(of_char a :: nat) \<le> 122"
      and n: "n = (of_char a :: nat) - 32" by auto
    have "upper_ascii a = char_of ((of_char a :: nat) - 32)"
      using a by (simp add: upper_ascii_def Let_def)
    also have "\<dots> = char_of n" using n by simp
    also have "\<dots> = d" by (simp add: n_def)
    finally show ?thesis by simp
  qed
qed

lemma startswith_lower:
  "plain_lower p \<Longrightarrow> startswith (lower s) p = casing_of p (take (length p) s)"
proof (induction p arbitrary: s)
  case Nil
  show ?case by (simp add: casing_of_def)
next
  case (Cons a p)
  then have a: "(97 \<le> (of_char a :: nat) \<and> (of_char a :: nat) \<le> 122) \<or> (of_char a :: nat) = 32"
    and p: "plain_lower p" by (simp_all add: plain_lower_def)
  show ?case
  proof (cases s)
    case Nil
    then show ?thesis by (simp add: lower_def casing_of_def)
  next
    case (Cons d s')
    have "startswith (lower (d # s')) (a # p) = (lower_char d = a \<and> startswith (lower s') p)"
      by (simp add: lower_def)
    also have "\<dots> = ((d = a \<or> d = upper_ascii a) \<and> casing_of p (take (length p) s'))"
      using lower_char_eq_plain [OF a, of d] Cons.IH [OF p, of s'] by simp
    also have "\<dots> = casing_of (a # p) (take (length (a # p)) (d # s'))"
      by (simp add: casing_of_def)
    finally show ?thesis using Cons by simp
  qed
qed

text \<open>The test \<open>p in s.lower()\<close> holds exactly when some casing of \<open>p\<close> occurs in \<open>s\<close>.\<close>

lemma str_in_lower:
  "plain_lower p \<Longrightarrow> str_in p (lower s) = occurs_ignoring_case p s"
proof (induction s)
  case Nil
  show ?case by (simp add: lower_def)
next
  case (Cons c cs)
  have "str_in p (lower (c # cs)) = (startswith (lower (c # cs)) p \<or> str_in p (lower cs))"
    by (simp add: lower_def)
  then show ?case using Cons startswith_lower [of p "c # cs"] by simp
qed

lemma plain_invalid_api_key: "plain_lower ''invalid api key''"
  by (simp add: plain_lower_def)

lemma plain_city_not_found: "plain_lower ''city not found''"
  by (simp add: plain_lower_def)

lemma lower_empty: "lower m = [] \<longleftrightarrow> m = []"
  by (simp add: lower_def)

section \<open>Facts about the examples\<close>

lemma example_inject:
  "url_builder (example_env a) example_base_url (Some ''NEW'') (Some ''appid'')
   = Inr ''https://api.example.com/data?units=metric&appid=NEW''"
  by (simp add: inject_key_def example_env_def example_parsed_def)

lemma example_base_url_nonempty: "example_base_url \<noteq> []"
  by (simp add: example_base_url_def)

lemma example_get: "requests_get (example_env a) u t v = a"
  by (simp add: example_env_def)

lemma ok_response_passes: "raise_for_status ok_response = None"
  by (simp add: raise_for_status_def ok_response_def)

lemma html_response_passes: "raise_for_status html_response = None"
  by (simp add: raise_for_status_def html_response_def)

lemma invalid_key_200_response_passes: "raise_for_status invalid_key_200_response = None"
  by (simp add: raise_for_status_def invalid_key_200_response_def)

section \<open>The validator's classification\<close>

lemma validate_api_key_unfold:
  "api_key \<noteq> [] \<Longrightarrow>
   returned (validate_api_key e (Some api_key))
   = (case validate_try e (test_url_for (Some api_key)) of
        Inr result \<Rightarrow> Inr result | Inl err \<Rightarrow> validate_except err)"
  by (simp add: validate_api_key_def Let_def)

lemma validate_try_message:
  assumes "requests_get e u 5 False = GetResponse response"
    and "raise_for_status response = None"
    and "json_result response = Inr (JDict kvs)"
    and "map_of kvs ''message'' = Some field"
  shows "validate_try e u = classify_message field (status_code response)"
  using assms by (simp add: validate_try_def)

lemma validate_try_http_error:
  assumes "requests_get e u 5 False = GetResponse response"
    and "raise_for_status response = Some err"
  shows "validate_try e u = Inl err"
  using assms by (simp add: validate_try_def)

lemma accepted_status_not_404: "raise_for_status response = None \<Longrightarrow> status_code response \<noteq> 404"
  by (auto simp: raise_for_status_def split: if_splits)

text \<open>Lines 37 to 50 on a \<open>message\<close> that is a string, with the two substring tests
  read as occurrences in any casing.\<close>

lemma classify_message_string:
  "classify_message (JStr m) status
   = Inr (if occurs_ignoring_case ''invalid api key'' m
          then (False, ''Invalid API Key: OpenWeatherMap service explicitly says key is invalid.'')
          else if occurs_ignoring_case ''city not found'' m \<and> status = 404
          then (True, ''API Key is valid. (Test city not found as expected).'')
          else if status = 200
          then (True, ''API Key is valid. (Unexpected 200 OK for test city, but key seems active).'')
          else (False, ''API Key validation failed with unexpected response: ''
                       @ (if m \<noteq> [] then lower m else ''Unknown error'')))"
  by (simp add: classify_message_def str_in_lower plain_invalid_api_key plain_city_not_found
        lower_empty)

text \<open>
  Claim C1, as amended. If \<open>raise_for_status\<close> accepts the status of the response (it
  is no 4xx and no 5xx) and the JSON body has a \<open>message\<close> that contains
  ``invalid api key'' in any casing, the validator returns the failure ``Invalid API
  Key: ...'', whatever the status is. With status 401, \<open>raise_for_status\<close> raises before
  the body is read, and the validator returns the failure ``Network or API
  communication error: 401 Client Error: ...'', whatever the body is.
\<close>

theorem invalid_key_message_after_status_check:
  assumes "api_key \<noteq> []"
    and "requests_get e (test_url_for (Some api_key)) 5 False = GetResponse response"
  shows "(raise_for_status response = None \<and> json_result response = Inr (JDict kvs)
          \<and> map_of kvs ''message'' = Some (JStr m) \<and> str_in ''invalid api key'' (lower m) \<longrightarrow>
            returned (validate_api_key e (Some api_key))
            = Inr (False, ''Invalid API Key: OpenWeatherMap service explicitly says key is invalid.''))
       \<and> (status_code response = 401 \<longrightarrow>
            returned (validate_api_key e (Some api_key))
            = Inr (False, ''Network or API communication error: 401 Client Error: ''
                          @ reason response @ '' for url: '' @ response_url response
                          @ ''. Check internet, API key, or try again later.''))"
proof (intro conjI impI)
  assume a: "raise_for_status response = None \<and> json_result response = Inr (JDict kvs)
          \<and> map_of kvs ''message'' = Some (JStr m) \<and> str_in ''invalid api key'' (lower m)"
  then have "validate_try e (test_url_for (Some api_key))
             = classify_message (JStr m) (status_code response)"
    using assms(2) by (simp add: validate_try_message)
  also have "\<dots> = Inr (False, ''Invalid API Key: OpenWeatherMap service explicitly says key is invalid.'')"
    using a by (simp add: classify_message_def)
  finally show "returned (validate_api_key e (Some api_key))
            = Inr (False, ''Invalid API Key: OpenWeatherMap service explicitly says key is invalid.'')"
    using assms(1) by (simp add: validate_api_key_unfold)
next
  assume s: "status_code response = 401"
  have "str_int 401 = ''401''" by code_simp
  with s have "raise_for_status response
        = Some (RequestException (''401 Client Error: '' @ reason response
                                  @ '' for url: '' @ response_url response))"
    by (simp add: raise_for_status_def)
  from validate_try_http_error [OF assms(2) this] assms(1)
  show "returned (validate_api_key e (Some api_key))
            = Inr (False, ''Network or API communication error: 401 Client Error: ''
                          @ reason response @ '' for url: '' @ response_url response
                          @ ''. Check internet, API key, or try again later.'')"
    by (simp add: validate_api_key_unfold)
qed

theorem invalid_key_message_after_status_check_witness:
  "returned (validate_api_key (example_env (GetResponse invalid_key_200_response)) (Some ''abc''))
     = Inr (False, ''Invalid API Key: OpenWeatherMap service explicitly says key is invalid.'')
   \<and> returned (validate_api_key (example_env (GetResponse unauthorized_response)) (Some ''abc''))
     = Inr (False, ''Network or API communication error: 401 Client Error: Unauthorized for url: ''
                   @ test_url_abc @ ''. Check internet, API key, or try again later.'')"
proof -
  let ?e = "example_env (GetResponse invalid_key_200_response)"
  let ?f = "example_env (GetResponse unauthorized_response)"
  have 1: "''abc'' \<noteq> []" by simp
  have 2: "requests_get ?e (test_url_for (Some ''abc'')) 5 False
           = GetResponse invalid_key_200_response"
    by (rule example_get)
  have 3: "json_result invalid_key_200_response
           = Inr (JDict [(''message'', JStr ''Invalid API Key'')])"
    by (simp add: invalid_key_200_response_def)
  have 4: "map_of [(''message'', JStr ''Invalid API Key'')] ''message''
           = Some (JStr ''Invalid API Key'')"
    by simp
  have 5: "str_in ''invalid api key'' (lower ''Invalid API Key'')" by code_simp
  have u2: "requests_get ?f (test_url_for (Some ''abc'')) 5 False
            = GetResponse unauthorized_response"
    by (rule example_get)
  have r: "status_code unauthorized_response = 401"
    "reason unauthorized_response = ''Unauthorized''"
    "response_url unauthorized_response = test_url_abc"
    by (simp_all add: unauthorized_response_def)
  show ?thesis
    using invalid_key_message_after_status_check [OF 1 2,
        of "[(''message'', JStr ''Invalid API Key'')]" "''Invalid API Key''"]
      invalid_key_message_after_status_check [OF 1 u2]
      invalid_key_200_response_passes 3 4 5 r
    by simp
qed

text \<open>
  The claim as it was stated fails: to a response with status 401 and the body
  \<open>{"message":"Invalid API key"}\<close> the validator answers with the network failure, not
  with the invalid-key failure.
\<close>

theorem invalid_key_401_counterexample:
  "status_code unauthorized_response = 401
   \<and> json_result unauthorized_response = Inr (JDict [(''message'', JStr ''Invalid API key'')])
   \<and> returned (validate_api_key (example_env (GetResponse unauthorized_response)) (Some ''abc''))
     = Inr (False, ''Network or API communication error: 401 Client Error: Unauthorized for url: https://api.openweathermap.org/data/2.5/weather?q=NonExistentCity123&appid=abc. Check internet, API key, or try again later.'')
   \<and> returned (validate_api_key (example_env (GetResponse unauthorized_response)) (Some ''abc''))
     \<noteq> Inr (False, ''Invalid API Key: OpenWeatherMap service explicitly says key is invalid.'')"
  by code_simp

text \<open>
  Claim C2. A response with status 404 whose \<open>message\<close> is ``city not found'' should
  give the success ``API Key is valid. (Test city not found as expected).'', as the
  comments at lines 32 to 34 and 42 say. The code returns the network failure:
  \<open>raise_for_status\<close> at line 27 raises for 404 before the body is read.
\<close>

theorem city_not_found_404_returns_failure:
  "status_code not_found_response = 404
   \<and> json_result not_found_response
       = Inr (JDict [(''cod'', JStr ''404''), (''message'', JStr ''city not found'')])
   \<and> returned (validate_api_key (example_env (GetResponse not_found_response)) (Some ''abc''))
     = Inr (False, ''Network or API communication error: 404 Client Error: Not Found for url: https://api.openweathermap.org/data/2.5/weather?q=NonExistentCity123&appid=abc. Check internet, API key, or try again later.'')"
  by code_simp

text \<open>The branch of lines 41 to 43 is never taken: no call returns its message.\<close>

lemma not_found_branch_unreachable:
  "returned (validate_api_key e api_key)
   \<noteq> Inr (True, ''API Key is valid. (Test city not found as expected).'')"
proof (cases "truthy api_key")
  case False
  then show ?thesis by (simp add: validate_api_key_def)
next
  case True
  have "validate_try e u \<noteq> Inr (True, ''API Key is valid. (Test city not found as expected).'')"
    for u
    by (auto simp: validate_try_def classify_message_def raise_for_status_def
             split: get_outcome.splits option.splits sum.splits if_splits)
  moreover have "validate_except err \<noteq> Inr (True, m)" for err m
    by (cases err) auto
  ultimately show ?thesis using True
    by (auto simp: validate_api_key_def Let_def split: sum.splits)
qed

text \<open>
  Claim C10. The classification does not depend on the casing of the message. When
  the status is accepted and the \<open>message\<close> of the JSON body is the string \<open>m\<close>, the
  validator returns the invalid-key failure exactly when some casing of ``invalid api
  key'' occurs in \<open>m\<close>; otherwise it returns the success for status 200 and else the
  failure that quotes the lowered message. The branches of lines 37 to 50 themselves,
  for any string and any status, test for an occurrence of ``invalid api key'' and of
  ``city not found'' in any casing.
\<close>

theorem classification_ignores_case:
  assumes "api_key \<noteq> []"
    and "requests_get e (test_url_for (Some api_key)) 5 False = GetResponse response"
    and "raise_for_status response = None"
    and "json_result response = Inr (JDict kvs)"
    and "map_of kvs ''message'' = Some (JStr m)"
  shows "returned (validate_api_key e (Some api_key))
         = Inr (if occurs_ignoring_case ''invalid api key'' m
                then (False, ''Invalid API Key: OpenWeatherMap service explicitly says key is invalid.'')
                else if status_code response = 200
                then (True, ''API Key is valid. (Unexpected 200 OK for test city, but key seems active).'')
                else (False, ''API Key validation failed with unexpected response: ''
                             @ (if m \<noteq> [] then lower m else ''Unknown error'')))
       \<and> classify_message (JStr m') status
         = Inr (if occurs_ignoring_case ''invalid api key'' m'
                then (False, ''Invalid API Key: OpenWeatherMap service explicitly says key is invalid.'')
                else if occurs_ignoring_case ''city not found'' m' \<and> status = 404
                then (True, ''API Key is valid. (Test city not found as expected).'')
                else if status = 200
                then (True, ''API Key is valid. (Unexpected 200 OK for test city, but key seems active).'')
                else (False, ''API Key validation failed with unexpected response: ''
                             @ (if m' \<noteq> [] then lower m' else ''Unknown error'')))"
proof
  have "validate_try e (test_url_for (Some api_key))
        = classify_message (JStr m) (status_code response)"
    using assms(2-5) by (rule validate_try_message)
  then show "returned (validate_api_key e (Some api_key))
         = Inr (if occurs_ignoring_case ''invalid api key'' m
                then (False, ''Invalid API Key: OpenWeatherMap service explicitly says key is invalid.'')
                else if status_code response = 200
                then (True, ''API Key is valid. (Unexpected 200 OK for test city, but key seems active).'')
                else (False, ''API Key validation failed with unexpected response: ''
                             @ (if m \<noteq> [] then lower m else ''Unknown error'')))"
    using assms(1) accepted_status_not_404 [OF assms(3)]
    by (simp add: validate_api_key_unfold classify_message_string)
next
  show "classify_message (JStr m') status
         = Inr (if occurs_ignoring_case ''invalid api key'' m'
                then (False, ''Invalid API Key: OpenWeatherMap service explicitly says key is invalid.'')
                else if occurs_ignoring_case ''city not found'' m' \<and> status = 404
                then (True, ''API Key is valid. (Test city not found as expected).'')
                else if status = 200
                then (True, ''API Key is valid. (Unexpected 200 OK for test city, but key seems active).'')
                else (False, ''API Key validation failed with unexpected response: ''
                             @ (if m' \<noteq> [] then lower m' else ''Unknown error'')))"
    by (rule classify_message_string)
qed

theorem classification_ignores_case_witness:
  "occurs_ignoring_case ''invalid api key'' ''Invalid API Key''
   \<and> returned (validate_api_key (example_env (GetResponse invalid_key_200_response)) (Some ''abc''))
       = Inr (False, ''Invalid API Key: OpenWeatherMap service explicitly says key is invalid.'')
   \<and> returned (validate_api_key (example_env (GetResponse ok_response)) (Some ''abc''))
       = Inr (True, ''API Key is valid. (Unexpected 200 OK for test city, but key seems active).'')
   \<and> classify_message (JStr ''Error: City Not Found.'') 404
       = Inr (True, ''API Key is valid. (Test city not found as expected).'')
   \<and> classify_message (JStr ''Nothing Found'') 404
       = Inr (False, ''API Key validation failed with unexpected response: nothing found'')"
proof -
  let ?e = "example_env (GetResponse invalid_key_200_response)"
  let ?f = "example_env (GetResponse ok_response)"
  have 1: "''abc'' \<noteq> []" by simp
  have 2: "requests_get ?e (test_url_for (Some ''abc'')) 5 False
           = GetResponse invalid_key_200_response"
    by (rule example_get)
  have 4: "json_result invalid_key_200_response
           = Inr (JDict [(''message'', JStr ''Invalid API Key'')])"
    by (simp add: invalid_key_200_response_def)
  have 5: "map_of [(''message'', JStr ''Invalid API Key'')] ''message''
           = Some (JStr ''Invalid API Key'')"
    by simp
  have f2: "requests_get ?f (test_url_for (Some ''abc'')) 5 False = GetResponse ok_response"
    by (rule example_get)
  have f4: "json_result ok_response = Inr (JDict [(''message'', JStr ''ok'')])"
    by (simp add: ok_response_def)
  have f5: "map_of [(''message'', JStr ''ok'')] ''message'' = Some (JStr ''ok'')"
    by simp
  have o: "occurs_ignoring_case ''invalid api key'' ''Invalid API Key''"
    "\<not> occurs_ignoring_case ''invalid api key'' ''ok''"
    "\<not> occurs_ignoring_case ''invalid api key'' ''Error: City Not Found.''"
    "occurs_ignoring_case ''city not found'' ''Error: City Not Found.''"
    "\<not> occurs_ignoring_case ''invalid api key'' ''Nothing Found''"
    "\<not> occurs_ignoring_case ''city not found'' ''Nothing Found''"
    "lower ''Nothing Found'' = ''nothing found''"
    by code_simp+
  have s: "status_code ok_response = 200" by (simp add: ok_response_def)
  show ?thesis
    using classification_ignores_case [OF 1 2 invalid_key_200_response_passes 4 5,
        of "''Error: City Not Found.''" 404]
      classification_ignores_case [OF 1 f2 ok_response_passes f4 f5, of "''Nothing Found''" 404]
      o s
    by simp
qed

section \<open>The URL builder\<close>

lemma dict_setitem_lookup: "map_of (dict_setitem d k v) = (map_of d)(k \<mapsto> v)"
  by (induction d) auto

lemma dict_setitem_keys: "k \<in> set (map fst d) \<Longrightarrow> map fst (dict_setitem d k v) = map fst d"
  by (induction d) force+

text \<open>
  Claim C3. Let the base URL parse, let \<open>query_params\<close> be the mapping \<open>parse_qs\<close>
  gives for its query string, and let the parameter name occur in it; key and name
  are not empty. Then the URL the builder produces is the base URL with its query
  replaced by the serialization of a mapping in which the name has exactly the value
  \<open>[api_key]\<close>, every other name has its original list of values, and the names are
  those of the original mapping in their order (the key is overwritten, not added).
  If serializing or reassembling raises, so does the builder.
\<close>

theorem key_overwrites_existing_parameter:
  assumes "api_key \<noteq> []" and "key_param_name \<noteq> []"
    and "urlparse e base_url = Inr parsed_url"
    and "parse_qs e (query parsed_url) = Inr query_params"
    and "key_param_name \<in> set (map fst query_params)"
  shows "url_builder e base_url (Some api_key) (Some key_param_name)
         = (case urlencode e (dict_setitem query_params key_param_name [api_key]) True of
              Inl err \<Rightarrow> Inl err
            | Inr new_query \<Rightarrow> urlunparse e (parsed_url\<lparr>query := new_query\<rparr>))
       \<and> map_of (dict_setitem query_params key_param_name [api_key]) key_param_name
          = Some [api_key]
       \<and> (\<forall>k. k \<noteq> key_param_name \<longrightarrow>
              map_of (dict_setitem query_params key_param_name [api_key]) k
              = map_of query_params k)
       \<and> map fst (dict_setitem query_params key_param_name [api_key]) = map fst query_params"
  using assms by (simp add: inject_key_def dict_setitem_lookup dict_setitem_keys)

theorem key_overwrites_existing_parameter_witness:
  "url_builder (example_env (GetResponse ok_response)) example_base_url (Some ''NEW'') (Some ''appid'')
     = Inr ''https://api.example.com/data?units=metric&appid=NEW''
   \<and> map_of (dict_setitem [(''units'', [''metric'']), (''appid'', [''old''])] ''appid'' [''NEW''])
        ''appid'' = Some [''NEW'']
   \<and> map_of (dict_setitem [(''units'', [''metric'']), (''appid'', [''old''])] ''appid'' [''NEW''])
        ''units'' = Some [''metric'']
   \<and> map fst (dict_setitem [(''units'', [''metric'']), (''appid'', [''old''])] ''appid'' [''NEW''])
      = [''units'', ''appid'']"
proof -
  let ?e = "example_env (GetResponse ok_response)"
  let ?d = "[(''units'', [''metric'']), (''appid'', [''old''])]"
  have 1: "''NEW'' \<noteq> []" and 2: "''appid'' \<noteq> []" by simp_all
  have 3: "urlparse ?e example_base_url = Inr example_parsed" by (simp add: example_env_def)
  have 4: "parse_qs ?e (query example_parsed) = Inr ?d"
    by (simp add: example_env_def example_parsed_def)
  have 5: "''appid'' \<in> set (map fst ?d)" by simp
  show ?thesis
    using key_overwrites_existing_parameter [OF 1 2 3 4 5]
    by (simp add: example_env_def example_parsed_def)
qed




section \<open>The generic tester's classification\<close>

lemma nested_list_not_dict: "nested_list n \<noteq> JDict kvs"
  by (cases n) simp_all

lemma deep_response_passes: "raise_for_status deep_response = None"
  by (simp add: raise_for_status_def deep_response_def)

lemma example_json_dumps_deep:
  "json_dumps (example_env a) (nested_list 999) 2
   = Inl (OtherException ''maximum recursion depth exceeded'')"
  by (simp add: example_env_def nested_list_not_dict)

lemma example_json_dumps_ok:
  "json_dumps (example_env a) (JDict [(''message'', JStr ''ok'')]) 2
   = Inr (''{'' @ nl @ ''  '' @ dquote @ ''message'' @ dquote @ '': '' @ dquote @ ''ok'' @ dquote
          @ nl @ ''}'')"
  by (simp add: example_env_def)

text \<open>Lines 37 to 56 once the response is there and its status is accepted.\<close>

lemma make_api_request_json:
  assumes "base_url \<noteq> []"
    and "url_builder e base_url api_key key_param_name = Inr final_url"
    and "requests_get e final_url 10 False = GetResponse response"
    and "raise_for_status response = None"
  shows "make_api_request e (Some base_url) api_key key_param_name
         = \<lparr>calls = [GET final_url 10 False],
            returned = (case json_result response of
                          Inl err \<Rightarrow> request_except final_url (Some response) err
                        | Inr response_data \<Rightarrow>
                            (case json_dumps e response_data 2 of
                               Inl err \<Rightarrow> request_except final_url (Some response) err
                             | Inr pretty \<Rightarrow> Inr (True, pretty)))\<rparr>"
  using assms by (simp add: request_try_def split: sum.splits)

text \<open>
  Claim C6, as amended. When the response has a status \<open>raise_for_status\<close> accepts and
  its body decodes as JSON, \<open>make_api_request\<close> has issued the one GET and returns
  success with the text of \<open>json.dumps\<close> of the decoded value at \<open>indent=2\<close>, whatever
  the value is, if \<open>json.dumps\<close> returns a text. If \<open>json.dumps\<close> raises, it returns the
  failure its \<open>except\<close> clauses give for the exception: ``An unexpected internal error
  occurred: ...'' for a \<open>RecursionError\<close>.
\<close>

theorem json_body_is_success:
  assumes "base_url \<noteq> []"
    and "url_builder e base_url api_key key_param_name = Inr final_url"
    and "requests_get e final_url 10 False = GetResponse response"
    and "raise_for_status response = None"
    and "json_result response = Inr response_data"
  shows "make_api_request e (Some base_url) api_key key_param_name
         = \<lparr>calls = [GET final_url 10 False],
            returned = (case json_dumps e response_data 2 of
                          Inr pretty \<Rightarrow> Inr (True, pretty)
                        | Inl (RequestException msg) \<Rightarrow>
                            request_except final_url (Some response) (RequestException msg)
                        | Inl (JSONDecodeError msg) \<Rightarrow>
                            request_except final_url (Some response) (JSONDecodeError msg)
                        | Inl (OtherException msg) \<Rightarrow>
                            Inr (False, ''An unexpected internal error occurred: '' @ msg))\<rparr>"
  using make_api_request_json [OF assms(1-4)] assms(5)
  by (simp split: sum.splits exn.splits)

theorem json_body_is_success_witness:
  "make_api_request (example_env (GetResponse ok_response)) (Some example_base_url)
     (Some ''NEW'') (Some ''appid'')
   = \<lparr>calls = [GET ''https://api.example.com/data?units=metric&appid=NEW'' 10 False],
      returned = Inr (True, ''{'' @ nl @ ''  '' @ dquote @ ''message'' @ dquote @ '': ''
                            @ dquote @ ''ok'' @ dquote @ nl @ ''}'')\<rparr>
   \<and> make_api_request (example_env (GetResponse deep_response)) (Some example_base_url)
       (Some ''NEW'') (Some ''appid'')
     = \<lparr>calls = [GET ''https://api.example.com/data?units=metric&appid=NEW'' 10 False],
        returned = Inr (False, ''An unexpected internal error occurred: maximum recursion depth exceeded'')\<rparr>"
proof -
  let ?e = "example_env (GetResponse ok_response)"
  let ?f = "example_env (GetResponse deep_response)"
  have 3: "requests_get ?e ''https://api.example.com/data?units=metric&appid=NEW'' 10 False
           = GetResponse ok_response"
    by (rule example_get)
  have 5: "json_result ok_response = Inr (JDict [(''message'', JStr ''ok'')])"
    by (simp add: ok_response_def)
  have f3: "requests_get ?f ''https://api.example.com/data?units=metric&appid=NEW'' 10 False
           = GetResponse deep_response"
    by (rule example_get)
  have f5: "json_result deep_response = Inr (nested_list 999)"
    by (simp add: deep_response_def)
  show ?thesis
    using json_body_is_success [OF example_base_url_nonempty example_inject 3
        ok_response_passes 5]
      json_body_is_success [OF example_base_url_nonempty example_inject f3
        deep_response_passes f5]
    by (simp add: example_json_dumps_ok example_json_dumps_deep)
qed

text \<open>
  The claim as it was stated fails: a body of 1000 nested brackets has an accepted
  status and decodes as JSON, \<open>json.dumps\<close> raises \<open>RecursionError\<close> on the decoded value,
  and \<open>make_api_request\<close> returns a failure.
\<close>

theorem deep_json_counterexample:
  "raise_for_status deep_response = None
   \<and> json_result deep_response = Inr (nested_list 999)
   \<and> json_dumps (example_env (GetResponse deep_response)) (nested_list 999) 2
     = Inl (OtherException ''maximum recursion depth exceeded'')
   \<and> returned (make_api_request (example_env (GetResponse deep_response)) (Some example_base_url)
                (Some ''NEW'') (Some ''appid''))
     = Inr (False, ''An unexpected internal error occurred: maximum recursion depth exceeded'')"
proof -
  let ?f = "example_env (GetResponse deep_response)"
  have f3: "requests_get ?f ''https://api.example.com/data?units=metric&appid=NEW'' 10 False
           = GetResponse deep_response"
    by (rule example_get)
  have f5: "json_result deep_response = Inr (nested_list 999)"
    by (simp add: deep_response_def)
  show ?thesis
    using make_api_request_json [OF example_base_url_nonempty example_inject f3
        deep_response_passes]
    by (simp add: f5 example_json_dumps_deep deep_response_passes)
qed

text \<open>
  Claim C5. A response with an accepted status whose body is no JSON should be
  answered by the \<open>except json.JSONDecodeError\<close> clause, with ``API returned unreadable
  data (not valid JSON format).'' and, in \<open>make_api_request\<close>, the first 500 characters
  of the body, as the comments at main.py lines 29 and 58 to 60 and temp.py lines 40
  and 50 to 53 say. The exception \<open>response.json()\<close> raises is a \<open>RequestException\<close>,
  so the first \<open>except\<close> clause answers in both functions, with the network failure
  and without the body.
\<close>

theorem non_json_body_returns_network_failure:
  "status_code html_response = 200
   \<and> response_text html_response = ''<html>error</html>''
   \<and> returned (validate_api_key (example_env (GetResponse html_response)) (Some ''abc''))
     = Inr (False, ''Network or API communication error: Expecting value: line 1 column 1 (char 0). Check internet, API key, or try again later.'')
   \<and> returned (make_api_request (example_env (GetResponse html_response)) (Some example_base_url)
                (Some ''NEW'') (Some ''appid''))
     = Inr (False, ''Network or HTTP error: Expecting value: line 1 column 1 (char 0)'' @ nl
                 @ ''Attempted URL: https://api.example.com/data?units=metric&appid=NEW'' @ nl @ nl
                 @ ''**Troubleshooting:**'' @ nl
                 @ ''- Ensure the URL is correct and accessible.'' @ nl
                 @ ''- Check your internet connection.'' @ nl
                 @ ''- Verify the API key is correct for the API'' @ apostrophe
                 @ ''s endpoint and method (e.g., query parameter name).'' @ nl
                 @ ''- The API might require authentication via headers (not supported by this simple tool).'')"
proof -
  let ?e = "example_env (GetResponse html_response)"
  have v: "returned (validate_api_key ?e (Some ''abc''))
     = Inr (False, ''Network or API communication error: Expecting value: line 1 column 1 (char 0). Check internet, API key, or try again later.'')"
    by code_simp
  have 3: "requests_get ?e ''https://api.example.com/data?units=metric&appid=NEW'' 10 False
           = GetResponse html_response"
    by (rule example_get)
  have 5: "json_result html_response
           = Inl (RequestException ''Expecting value: line 1 column 1 (char 0)'')"
    by (simp add: html_response_def)
  have h: "status_code html_response = 200" "response_text html_response = ''<html>error</html>''"
    by (simp_all add: html_response_def)
  show ?thesis
    using make_api_request_json [OF example_base_url_nonempty example_inject 3
        html_response_passes]
    by (simp add: 5 v h)
qed

section \<open>The remembered key\<close>

lemma status_delete_all_key [simp]: "valid_api_key (status_delete_all g) = valid_api_key g"
  by (simp add: status_delete_all_def)

lemma status_insert_end_key [simp]: "valid_api_key (status_insert_end s g) = valid_api_key g"
  by (simp add: status_insert_end_def)

lemma clear_fields_key: "valid_api_key (clear_fields g) = None"
  by (simp add: clear_fields_def Let_def)

lemma perform_validation_key:
  "\<not> is_success (returned (validate_api_key e (Some (strip (api_key_entry g)))))
   \<Longrightarrow> valid_api_key g = None \<Longrightarrow> valid_api_key (perform_validation e g) = None"
  by (auto simp: perform_validation_def Let_def split: sum.splits)

lemma run_keeps_none:
  "unsuccessful evs g \<Longrightarrow> valid_api_key g = None \<Longrightarrow> valid_api_key (run evs g) = None"
proof (induction evs arbitrary: g)
  case Nil
  then show ?case by simp
next
  case (Cons ev evs)
  show ?case
  proof (cases ev)
    case (Edit s)
    with Cons show ?thesis by simp
  next
    case (Validate e)
    with Cons show ?thesis by (simp add: perform_validation_key)
  next
    case Clear
    with Cons show ?thesis by (simp add: clear_fields_key)
  qed
qed

text \<open>
  Claim C8. After \<open>clear_fields\<close>, in whatever state of the window it ran (so also
  after a successful validation stored a key), the remembered key is \<open>None\<close>, and it
  stays \<open>None\<close> through every sequence of edits, clears and validations in which no
  validation is successful.
\<close>

theorem clear_fields_forgets_key:
  assumes "unsuccessful evs (clear_fields g)"
  shows "valid_api_key (clear_fields g) = None
       \<and> valid_api_key (run evs (clear_fields g)) = None"
  using run_keeps_none [OF assms] by (simp add: clear_fields_key)

theorem clear_fields_forgets_key_witness:
  "valid_api_key (run [Edit '' abc '', Validate (example_env (GetResponse ok_response))] start_gui)
     = Some ''abc''
   \<and> valid_api_key
        (clear_fields (run [Edit '' abc '', Validate (example_env (GetResponse ok_response))] start_gui))
     = None
   \<and> valid_api_key
        (run [Edit ''abc'', Validate (example_env (GetResponse unauthorized_response))]
          (clear_fields
            (run [Edit '' abc '', Validate (example_env (GetResponse ok_response))] start_gui)))
     = None"
proof -
  let ?g = "run [Edit '' abc '', Validate (example_env (GetResponse ok_response))] start_gui"
  let ?evs = "[Edit ''abc'', Validate (example_env (GetResponse unauthorized_response))]"
  have s: "valid_api_key ?g = Some ''abc''" by code_simp
  have h: "unsuccessful ?evs (clear_fields ?g)" by code_simp
  show ?thesis
    using s clear_fields_forgets_key [OF h] by simp
qed

section \<open>Both functions always return\<close>

lemma validate_except_returns: "\<exists>ok msg. validate_except err = Inr (ok, msg)"
  by (cases err) auto

lemma validate_api_key_returns: "\<exists>ok msg. returned (validate_api_key e api_key) = Inr (ok, msg)"
proof (cases "truthy api_key")
  case False
  then show ?thesis by (auto simp: validate_api_key_def)
next
  case True
  show ?thesis
  proof (cases "validate_try e (test_url_for api_key)")
    case (Inl err)
    then show ?thesis using True validate_except_returns [of err]
      by (simp add: validate_api_key_def Let_def)
  next
    case (Inr r)
    then show ?thesis using True by (cases r) (simp add: validate_api_key_def Let_def)
  qed
qed

text \<open>A \<open>JSONDecodeError\<close> can only come from \<open>response.json()\<close>, so \<open>response\<close> is
  bound whenever the second \<open>except\<close> clause of \<open>make_api_request\<close> reads it.\<close>

lemma request_try_bound:
  "request_try e u = (resp, Inl (JSONDecodeError msg)) \<Longrightarrow> \<exists>response. resp = Some response"
  by (auto simp: request_try_def split: get_outcome.splits option.splits sum.splits)

lemma request_except_returns:
  "request_try e u = (resp, Inl err) \<Longrightarrow> \<exists>ok msg. request_except u resp err = Inr (ok, msg)"
proof (cases err)
  case (JSONDecodeError msg)
  assume "request_try e u = (resp, Inl err)"
  with JSONDecodeError obtain response where "resp = Some response"
    using request_try_bound by blast
  with JSONDecodeError show ?thesis by auto
qed auto

lemma make_api_request_returns:
  "\<exists>ok msg. returned (make_api_request e base_url api_key key_param_name) = Inr (ok, msg)"
proof (cases base_url)
  case None
  then show ?thesis by auto
next
  case (Some url)
  show ?thesis
  proof (cases "url = []")
    case True
    with Some show ?thesis by auto
  next
    case False
    show ?thesis
    proof (cases "url_builder e url api_key key_param_name")
      case (Inl err)
      then show ?thesis using Some False by auto
    next
      case (Inr final_url)
      obtain resp r where rt: "request_try e final_url = (resp, r)"
        by (cases "request_try e final_url")
      show ?thesis
      proof (cases r)
        case (Inr res)
        then show ?thesis using Some False \<open>url_builder _ _ _ _ = Inr final_url\<close> rt
          by (cases res) simp
      next
        case (Inl err)
        with rt request_except_returns [of e final_url resp err]
        show ?thesis using Some False \<open>url_builder _ _ _ _ = Inr final_url\<close>
          by simp
      qed
    qed
  qed
qed

text \<open>
  Claim C9. Whatever the arguments are and whatever the library and the network do
  (a network error, a body that is no JSON, any other exception), \<open>validate_api_key\<close>
  and \<open>make_api_request\<close> raise nothing: each returns a pair of a truth value and a
  text.
\<close>

theorem functions_always_return:
  "(\<exists>ok msg. returned (validate_api_key e api_key) = Inr (ok, msg))
   \<and> (\<exists>ok msg. returned (make_api_request e base_url key key_param_name) = Inr (ok, msg))"
  using validate_api_key_returns make_api_request_returns by simp

section \<open>Empty input\<close>

text \<open>
  Claim C7. With an empty (or absent) base URL, \<open>make_api_request\<close> returns the
  failure ``API URL cannot be empty.'' and issues no request, whatever the library
  would do with the arguments; with an empty (or absent) key, \<open>validate_api_key\<close>
  returns the failure ``API Key cannot be empty.'' and issues no request.
\<close>

theorem empty_input_fails_without_request:
  "make_api_request e (Some []) api_key key_param_name
     = \<lparr>calls = [], returned = Inr (False, ''API URL cannot be empty.'')\<rparr>
   \<and> make_api_request e None api_key key_param_name
     = \<lparr>calls = [], returned = Inr (False, ''API URL cannot be empty.'')\<rparr>
   \<and> validate_api_key e (Some [])
     = \<lparr>calls = [], returned = Inr (False, ''API Key cannot be empty.'')\<rparr>
   \<and> validate_api_key e None
     = \<lparr>calls = [], returned = Inr (False, ''API Key cannot be empty.'')\<rparr>"
  by (simp add: validate_api_key_def)


end
